theory Spec2Isabelle
  imports Complex_Main "HOL-Library.Sublist"
begin

section \<open>The training script \<^verbatim>\<open>scripts/train.py\<close>\<close>

text \<open>
  The script trains a classifier, evaluates it after every epoch and searches over two
  hyperparameters. Its own code is the three functions \<^verbatim>\<open>train\<close>, \<^verbatim>\<open>test\<close> and
  \<^verbatim>\<open>main\<close> (with the closure \<^verbatim>\<open>objective\<close>); everything else is a call into torch,
  wandb or optuna. The embedding keeps the script's control flow, its local variables and
  its exceptions, and takes the numerical library as a parameter (the record \<open>torch\<close>
  below). Tensors of floating-point numbers are idealised as lists of reals, so rounding,
  infinities and NaN are outside the model.
\<close>

subsection \<open>Exceptions and outcomes\<close>

datatype error = ZeroDivisionError | UnboundLocalError | ValueError | IndexError | RuntimeError

text \<open>
  A call either returns a value or raises; in both cases it leaves a world behind (what
  was printed and logged before the exception stays printed and logged).
\<close>

datatype ('a, 'w) outcome = Raise error 'w | Return 'a 'w

fun world_of :: "('a, 'w) outcome \<Rightarrow> 'w" where
  "world_of (Raise e w) = w"
| "world_of (Return a w) = w"

fun returns :: "('a, 'w) outcome \<Rightarrow> bool" where
  "returns (Raise e w) = False"
| "returns (Return a w) = True"

fun result_of :: "('a, 'w) outcome \<Rightarrow> error + 'a" where
  "result_of (Raise e w) = Inl e"
| "result_of (Return a w) = Inr a"

subsection \<open>Command-line arguments\<close>

text \<open>The namespace built by \<^verbatim>\<open>parser.parse_args()\<close>, one field per flag.\<close>

record args =
  batch_size :: int
  test_batch_size :: int
  epochs :: int
  gamma :: real
  no_cuda :: bool
  dry_run :: bool
  seed :: int
  log_interval :: int
  save_model :: bool

text \<open>The defaults of the parser.\<close>

definition default_args :: args where
  "default_args =
     \<lparr>batch_size = 64, test_batch_size = 1000, epochs = 2, gamma = 7 / 10, no_cuda = False,
      dry_run = False, seed = 1, log_interval = 10, save_model = False\<rparr>"

subsection \<open>Data loaders\<close>

text \<open>
  A \<^verbatim>\<open>torch.utils.data.DataLoader\<close> object. Iterating it visits the dataset in order,
  or in the order \<open>randperm\<close> gives when it shuffles, in batches of
  \<open>loader_batch_size\<close> samples, the last one possibly shorter. A sample is an input and
  its class label.
\<close>

record 'x loader =
  dataset :: "('x \<times> nat) list"
  loader_batch_size :: nat
  shuffle :: bool
  num_workers :: nat
  pin_memory :: bool

function batched :: "nat \<Rightarrow> 'a list \<Rightarrow> 'a list list" where
  "batched n xs = (if n = 0 \<or> xs = [] then [] else take n xs # batched n (drop n xs))"
  by pat_completeness auto
termination
  by (relation "measure (\<lambda>(n, xs). length xs)") auto

declare batched.simps [simp del]

definition collate :: "('x \<times> nat) list \<Rightarrow> 'x list \<times> nat list" where
  "collate samples = (map fst samples, map snd samples)"

subsection \<open>The world outside the script\<close>

datatype device = Cuda | Cpu

text \<open>What \<^verbatim>\<open>print\<close> writes, one constructor per format string of the script.\<close>

datatype line =
    TrainLine nat nat nat real real
  | TestLine real nat nat real
  | BestTrialLine
  | ValueLine real
  | ParamsLine
  | ParamLine string real

text \<open>What \<^verbatim>\<open>wandb.log\<close> receives.\<close>

datatype metric = TrainLoss nat real | TestLoss real nat

record ('x, 'r, 'p) world =
  rng :: 'r
  loaders :: "nat \<Rightarrow> 'x loader"
  next_loader :: nat
  printed :: "line list"
  wandb_logged_in :: bool
  wandb_config :: "args option"
  wandb_code :: "string list option"
  wandb_history :: "metric list"
  wandb_finished :: bool
  dirs :: "string list"
  saved_models :: "(string \<times> 'p) list"

definition print :: "line \<Rightarrow> ('x, 'r, 'p) world \<Rightarrow> ('x, 'r, 'p) world" where
  "print l w = w\<lparr>printed := printed w @ [l]\<rparr>"

definition wandb_log :: "metric \<Rightarrow> ('x, 'r, 'p) world \<Rightarrow> ('x, 'r, 'p) world" where
  "wandb_log m w = w\<lparr>wandb_history := wandb_history w @ [m]\<rparr>"

subsection \<open>The numerical library\<close>

text \<open>
  The parts of torch the script calls whose results the script does not determine:
  \<^item> \<open>manual_seed\<close>: the generator state \<^verbatim>\<open>torch.manual_seed\<close> sets;
  \<^item> \<open>net_init\<close>: the parameters \<^verbatim>\<open>Net()\<close> draws from the generator;
  \<^item> \<open>forward\<close>: \<^verbatim>\<open>model(data)\<close>, one row of scores per sample, given the parameters and the
    mode (training or evaluation); in training mode it may draw from the generator;
  \<^item> \<open>autograd\<close>: the gradient \<^verbatim>\<open>loss.backward()\<close> computes for the forward pass that
    started at the given generator state;
  \<^item> \<open>grad_add\<close>: accumulation into an existing \<^verbatim>\<open>.grad\<close>;
  \<^item> \<open>adam_init\<close>, \<open>adam_update\<close>: the state of \<^verbatim>\<open>optim.Adam\<close> and one update of it;
  \<^item> \<open>randperm\<close>: the order a shuffling loader visits its dataset in.
\<close>

record ('x, 'p, 'g, 'o, 'r) torch =
  manual_seed :: "int \<Rightarrow> 'r"
  net_init :: "'r \<Rightarrow> 'p \<times> 'r"
  forward :: "'p \<Rightarrow> bool \<Rightarrow> 'r \<Rightarrow> 'x list \<Rightarrow> real list list \<times> 'r"
  autograd :: "'p \<Rightarrow> 'r \<Rightarrow> 'x list \<Rightarrow> nat list \<Rightarrow> 'g"
  grad_add :: "'g \<Rightarrow> 'g \<Rightarrow> 'g"
  adam_init :: "'p \<Rightarrow> 'o"
  adam_update :: "real \<Rightarrow> 'o \<Rightarrow> 'g option \<Rightarrow> 'p \<Rightarrow> 'p \<times> 'o"
  randperm :: "'r \<Rightarrow> nat \<Rightarrow> nat list \<times> 'r"

text \<open>
  \<^verbatim>\<open>torch.manual_seed(seed)\<close>: the default generator takes a seed that fits 64 bits,
  signed or unsigned, and refuses any other.
\<close>

definition torch_manual_seed ::
  "('x, 'p, 'g, 'o, 'r) torch \<Rightarrow> int \<Rightarrow> ('x, 'r, 'p) world \<Rightarrow> (unit, ('x, 'r, 'p) world) outcome" where
  "torch_manual_seed lib s w =
     (if - (2 ^ 63) \<le> s \<and> s < 2 ^ 64 then Return () (w\<lparr>rng := manual_seed lib s\<rparr>)
      else Raise RuntimeError w)"

text \<open>
  \<^verbatim>\<open>F.nll_loss(output, target, reduction)\<close>: the negated score of each sample's target
  class, summed or averaged over the batch. It raises when the two batch sizes differ
  and when a target is not a class index of its row. Class labels are natural numbers.
\<close>

datatype reduction = Mean | Sum

definition nll_loss :: "real list list \<Rightarrow> nat list \<Rightarrow> reduction \<Rightarrow> error + real" where
  "nll_loss output target red =
     (if length output \<noteq> length target then Inl ValueError
      else if list_ex (\<lambda>(row, t). length row \<le> t) (zip output target) then Inl IndexError
      else let s = sum_list (map (\<lambda>(row, t). - (row ! t)) (zip output target))
           in Inr (case red of Sum \<Rightarrow> s | Mean \<Rightarrow> s / real (length target)))"

text \<open>\<^verbatim>\<open>row.argmax()\<close>: the index of the first largest entry.\<close>

primrec argmax_from :: "real list \<Rightarrow> nat \<Rightarrow> nat \<Rightarrow> real \<Rightarrow> nat" where
  "argmax_from [] i best v = best"
| "argmax_from (x # xs) i best v =
     (if v < x then argmax_from xs (Suc i) i x else argmax_from xs (Suc i) best v)"

fun argmax :: "real list \<Rightarrow> nat" where
  "argmax [] = 0"
| "argmax (x # xs) = argmax_from xs 1 0 x"

text \<open>
  \<^verbatim>\<open>pred.eq(target.view_as(pred)).sum().item()\<close> for \<^verbatim>\<open>pred = output.argmax(dim=1)\<close>: the
  number of samples whose predicted class is the target. It is only reached after
  \<^verbatim>\<open>nll_loss\<close> has accepted the same \<open>output\<close> and \<open>target\<close>.
\<close>

definition count_correct :: "real list list \<Rightarrow> nat list \<Rightarrow> nat" where
  "count_correct output target =
     length (filter (\<lambda>(row, t). argmax row = t) (zip output target))"

definition loader_iter ::
  "('x, 'p, 'g, 'o, 'r) torch \<Rightarrow> 'x loader \<Rightarrow> 'r \<Rightarrow> ('x list \<times> nat list) list \<times> 'r" where
  "loader_iter lib loader r =
     (if shuffle loader then
        (let (order, r') = randperm lib r (length (dataset loader))
         in (map collate (batched (loader_batch_size loader)
                            (map (\<lambda>i. dataset loader ! i) order)), r'))
      else (map collate (batched (loader_batch_size loader) (dataset loader)), r))"

subsection \<open>Model, optimizer, scheduler\<close>

text \<open>
  The three objects a trial owns. The optimizer holds the model's parameters by
  reference and the scheduler holds the optimizer, so the calls that write through
  these references take both objects and return both.
\<close>

record ('p, 'g) model =
  params :: 'p
  grad :: "'g option"
  training :: bool

record 'o optimizer =
  lr :: real
  adam_state :: 'o
  step_count :: nat

record scheduler =
  sched_gamma :: real
  step_size :: nat
  last_epoch :: nat

text \<open>\<^verbatim>\<open>Net().to(device)\<close>: a new module, in training mode, with no gradient yet.\<close>

definition Net ::
  "('x, 'p, 'g, 'o, 'r) torch \<Rightarrow> device \<Rightarrow> ('x, 'r, 'p) world \<Rightarrow>
   ('p, 'g) model \<times> ('x, 'r, 'p) world" where
  "Net lib dev w =
     (let (p, r) = net_init lib (rng w)
      in (\<lparr>params = p, grad = None, training = True\<rparr>, w\<lparr>rng := r\<rparr>))"

text \<open>\<^verbatim>\<open>optim.Adam(model.parameters(), lr=lr)\<close>, for a learning rate Adam accepts.\<close>

definition Adam :: "('x, 'p, 'g, 'o, 'r) torch \<Rightarrow> ('p, 'g) model \<Rightarrow> real \<Rightarrow> 'o optimizer" where
  "Adam lib m l = \<lparr>lr = l, adam_state = adam_init lib (params m), step_count = 0\<rparr>"

definition zero_grad :: "'o optimizer \<Rightarrow> ('p, 'g) model \<Rightarrow> ('p, 'g) model" where
  "zero_grad opt m = m\<lparr>grad := None\<rparr>"

text \<open>
  \<^verbatim>\<open>loss.backward()\<close> for the loss of the forward pass that started at generator state
  \<open>r0\<close> on \<open>data\<close> and \<open>target\<close>: the gradient is added to the one already stored.
\<close>

definition backward ::
  "('x, 'p, 'g, 'o, 'r) torch \<Rightarrow> ('p, 'g) model \<Rightarrow> 'r \<Rightarrow> 'x list \<Rightarrow> nat list \<Rightarrow> ('p, 'g) model" where
  "backward lib m r0 data target =
     (let g = autograd lib (params m) r0 data target
      in m\<lparr>grad := Some (case grad m of None \<Rightarrow> g | Some g0 \<Rightarrow> grad_add lib g0 g)\<rparr>)"

definition optimizer_step ::
  "('x, 'p, 'g, 'o, 'r) torch \<Rightarrow> 'o optimizer \<Rightarrow> ('p, 'g) model \<Rightarrow> ('p, 'g) model \<times> 'o optimizer" where
  "optimizer_step lib opt m =
     (let (p, s) = adam_update lib (lr opt) (adam_state opt) (grad m) (params m)
      in (m\<lparr>params := p\<rparr>, opt\<lparr>adam_state := s, step_count := Suc (step_count opt)\<rparr>))"

text \<open>
  \<^verbatim>\<open>StepLR(optimizer, step_size, gamma)\<close> and \<^verbatim>\<open>scheduler.step()\<close>: the epoch counter
  advances, and on every \<open>step_size\<close>-th epoch the optimizer's learning rate is multiplied
  by gamma.
\<close>

definition StepLR :: "'o optimizer \<Rightarrow> nat \<Rightarrow> real \<Rightarrow> scheduler" where
  "StepLR opt ss g = \<lparr>sched_gamma = g, step_size = ss, last_epoch = 0\<rparr>"

definition scheduler_step :: "scheduler \<Rightarrow> 'o optimizer \<Rightarrow> scheduler \<times> 'o optimizer" where
  "scheduler_step sch opt =
     (let sch = sch\<lparr>last_epoch := Suc (last_epoch sch)\<rparr>
      in if last_epoch sch = 0 \<or> last_epoch sch mod step_size sch \<noteq> 0 then (sch, opt)
         else (sch, opt\<lparr>lr := lr opt * sched_gamma sch\<rparr>))"

subsection \<open>\<^verbatim>\<open>train\<close>\<close>

text \<open>\<^verbatim>\<open>len(train_loader)\<close>: the number of batches.\<close>

definition len_loader :: "'x loader \<Rightarrow> nat" where
  "len_loader l = (length (dataset l) + loader_batch_size l - 1) div loader_batch_size l"

text \<open>
  The body of \<^verbatim>\<open>for batch_idx, (data, target) in enumerate(train_loader)\<close>. The loader
  is passed by reference (its address in \<open>loaders\<close>). \<^verbatim>\<open>batch_idx % args.log_interval\<close>
  raises when the interval is zero; \<^verbatim>\<open>break\<close> ends the loop.
\<close>

fun train_loop ::
  "('x, 'p, 'g, 'o, 'r) torch \<Rightarrow> args \<Rightarrow> device \<Rightarrow> nat \<Rightarrow> nat \<Rightarrow> nat \<Rightarrow>
   ('x list \<times> nat list) list \<Rightarrow> ('p, 'g) model \<times> 'o optimizer \<Rightarrow> ('x, 'r, 'p) world \<Rightarrow>
   (('p, 'g) model \<times> 'o optimizer, ('x, 'r, 'p) world) outcome" where
  "train_loop lib a dev train_loader epoch batch_idx [] (m, opt) w = Return (m, opt) w"
| "train_loop lib a dev train_loader epoch batch_idx ((data, target) # rest) (m, opt) w =
     (let m = zero_grad opt m;
          r0 = rng w;
          (output, r) = forward lib (params m) (training m) r0 data;
          w = w\<lparr>rng := r\<rparr>
      in case nll_loss output target Mean of
           Inl e \<Rightarrow> Raise e w
         | Inr loss \<Rightarrow>
             (let m = backward lib m r0 data target;
                  (m, opt) = optimizer_step lib opt m
              in if log_interval a = 0 then Raise ZeroDivisionError w
                 else if int batch_idx mod log_interval a = 0 then
                   (let w = print (TrainLine epoch (batch_idx * length data)
                                     (length (dataset (loaders w train_loader)))
                                     (100 * real batch_idx / real (len_loader (loaders w train_loader)))
                                     loss) w;
                        w = wandb_log (TrainLoss epoch loss) w
                    in if dry_run a then Return (m, opt) w
                       else train_loop lib a dev train_loader epoch (Suc batch_idx) rest (m, opt) w)
                 else train_loop lib a dev train_loader epoch (Suc batch_idx) rest (m, opt) w))"

definition train ::
  "('x, 'p, 'g, 'o, 'r) torch \<Rightarrow> args \<Rightarrow> ('p, 'g) model \<Rightarrow> device \<Rightarrow> nat \<Rightarrow> 'o optimizer \<Rightarrow> nat \<Rightarrow>
   ('x, 'r, 'p) world \<Rightarrow> (('p, 'g) model \<times> 'o optimizer, ('x, 'r, 'p) world) outcome" where
  "train lib a m dev train_loader opt epoch w =
     (let m = m\<lparr>training := True\<rparr>;
          (batches, r) = loader_iter lib (loaders w train_loader) (rng w);
          w = w\<lparr>rng := r\<rparr>
      in train_loop lib a dev train_loader epoch 0 batches (m, opt) w)"

subsection \<open>\<^verbatim>\<open>test\<close>\<close>

text \<open>
  The body of \<^verbatim>\<open>for data, target in test_loader\<close>, with the two accumulators
  \<^verbatim>\<open>test_loss\<close> and \<^verbatim>\<open>correct\<close>. The forward pass runs on the model as \<^verbatim>\<open>model.eval()\<close>
  left it; nothing is written to the model inside \<^verbatim>\<open>torch.no_grad()\<close>.
\<close>

fun test_loop ::
  "('x, 'p, 'g, 'o, 'r) torch \<Rightarrow> ('p, 'g) model \<Rightarrow> device \<Rightarrow> ('x list \<times> nat list) list \<Rightarrow>
   real \<times> nat \<Rightarrow> ('x, 'r, 'p) world \<Rightarrow> (real \<times> nat, ('x, 'r, 'p) world) outcome" where
  "test_loop lib m dev [] acc w = Return acc w"
| "test_loop lib m dev ((data, target) # rest) (test_loss, correct) w =
     (let (output, r) = forward lib (params m) (training m) (rng w) data;
          w = w\<lparr>rng := r\<rparr>
      in case nll_loss output target Sum of
           Inl e \<Rightarrow> Raise e w
         | Inr l \<Rightarrow>
             test_loop lib m dev rest (test_loss + l, correct + count_correct output target) w)"

text \<open>
  \<^verbatim>\<open>test_loss /= len(test_loader.dataset)\<close> raises on an empty dataset. The model comes
  back in evaluation mode.
\<close>

definition test ::
  "('x, 'p, 'g, 'o, 'r) torch \<Rightarrow> ('p, 'g) model \<Rightarrow> device \<Rightarrow> nat \<Rightarrow> nat \<Rightarrow>
   ('x, 'r, 'p) world \<Rightarrow> (real \<times> ('p, 'g) model, ('x, 'r, 'p) world) outcome" where
  "test lib m dev test_loader epoch w =
     (let m = m\<lparr>training := False\<rparr>;
          (batches, r) = loader_iter lib (loaders w test_loader) (rng w);
          w = w\<lparr>rng := r\<rparr>
      in case test_loop lib m dev batches (0, 0) w of
           Raise e w \<Rightarrow> Raise e w
         | Return (test_loss, correct) w \<Rightarrow>
             (let n = length (dataset (loaders w test_loader)) in
              if n = 0 then Raise ZeroDivisionError w
              else
                (let test_loss = test_loss / real n;
                     w = print (TestLine test_loss correct n (100 * real correct / real n)) w;
                     w = wandb_log (TestLoss test_loss epoch) w
                 in Return (test_loss, m) w)))"

subsection \<open>The hyperparameter search\<close>

text \<open>
  An optuna trial: its number, the parameters suggested so far, and the sampler the
  study gave it. \<^verbatim>\<open>suggest_float\<close> returns the value already suggested under a name, or
  asks the sampler and records the answer.
\<close>

record trial =
  number :: nat
  trial_params :: "(string \<times> real) list"
  sample :: "string \<Rightarrow> real \<Rightarrow> real \<Rightarrow> bool \<Rightarrow> real"

definition suggest_float :: "trial \<Rightarrow> string \<Rightarrow> real \<Rightarrow> real \<Rightarrow> bool \<Rightarrow> real \<times> trial" where
  "suggest_float t name low high log_scale =
     (case map_of (trial_params t) name of
        Some v \<Rightarrow> (v, t)
      | None \<Rightarrow>
          (let v = sample t name low high log_scale
           in (v, t\<lparr>trial_params := trial_params t @ [(name, v)]\<rparr>)))"

record frozen_trial =
  ft_number :: nat
  ft_params :: "(string \<times> real) list"
  ft_value :: real

datatype direction = Minimize | Maximize

record study =
  study_direction :: direction
  trials :: "frozen_trial list"

type_synonym sampler = "frozen_trial list \<Rightarrow> nat \<Rightarrow> string \<Rightarrow> real \<Rightarrow> real \<Rightarrow> bool \<Rightarrow> real"

definition create_study :: "direction \<Rightarrow> study" where
  "create_study d = \<lparr>study_direction = d, trials = []\<rparr>"

definition ask :: "sampler \<Rightarrow> study \<Rightarrow> trial" where
  "ask smp st =
     \<lparr>number = length (trials st), trial_params = [],
      sample = smp (trials st) (length (trials st))\<rparr>"

definition tell :: "study \<Rightarrow> trial \<Rightarrow> real \<Rightarrow> study" where
  "tell st t v =
     st\<lparr>trials := trials st @ [\<lparr>ft_number = number t, ft_params = trial_params t, ft_value = v\<rparr>]\<rparr>"

text \<open>
  \<^verbatim>\<open>study.optimize(objective, n_trials)\<close>: one trial after the other; an exception of
  the objective ends the search.
\<close>

fun optimize ::
  "(trial \<Rightarrow> 'w \<Rightarrow> (real \<times> trial, 'w) outcome) \<Rightarrow> sampler \<Rightarrow> nat \<Rightarrow> study \<Rightarrow> 'w \<Rightarrow>
   (study, 'w) outcome" where
  "optimize obj smp 0 st w = Return st w"
| "optimize obj smp (Suc n_trials) st w =
     (case obj (ask smp st) w of
        Raise e w \<Rightarrow> Raise e w
      | Return (v, t) w \<Rightarrow> optimize obj smp n_trials (tell st t v) w)"

text \<open>\<^verbatim>\<open>study.best_trial\<close>: the first trial of the best value; none when no trial ran.\<close>

definition better :: "direction \<Rightarrow> frozen_trial \<Rightarrow> frozen_trial \<Rightarrow> bool" where
  "better d t b = (case d of Minimize \<Rightarrow> ft_value t < ft_value b | Maximize \<Rightarrow> ft_value b < ft_value t)"

definition best_trial :: "study \<Rightarrow> error + frozen_trial" where
  "best_trial st =
     (case trials st of
        [] \<Rightarrow> Inl ValueError
      | t # ts \<Rightarrow> Inr (foldl (\<lambda>b t. if better (study_direction st) t b then t else b) t ts))"

subsection \<open>\<^verbatim>\<open>objective\<close>\<close>

text \<open>
  The body of \<^verbatim>\<open>for epoch in range(args.epochs)\<close>. The local \<^verbatim>\<open>test_loss\<close> is unbound
  (\<open>None\<close>) until the first pass assigns it.
\<close>

fun epoch_loop ::
  "('x, 'p, 'g, 'o, 'r) torch \<Rightarrow> args \<Rightarrow> device \<Rightarrow> nat \<Rightarrow> nat \<Rightarrow> nat list \<Rightarrow>
   ('p, 'g) model \<times> 'o optimizer \<times> scheduler \<times> real option \<Rightarrow> ('x, 'r, 'p) world \<Rightarrow>
   (('p, 'g) model \<times> 'o optimizer \<times> scheduler \<times> real option, ('x, 'r, 'p) world) outcome" where
  "epoch_loop lib a dev train_loader test_loader [] st w = Return st w"
| "epoch_loop lib a dev train_loader test_loader (epoch # rest) (m, opt, sch, test_loss) w =
     (case train lib a m dev train_loader opt epoch w of
        Raise e w \<Rightarrow> Raise e w
      | Return (m, opt) w \<Rightarrow>
          (case test lib m dev test_loader epoch w of
             Raise e w \<Rightarrow> Raise e w
           | Return (test_loss, m) w \<Rightarrow>
               (let (sch, opt) = scheduler_step sch opt
                in epoch_loop lib a dev train_loader test_loader rest
                     (m, opt, sch, Some test_loss) w)))"

text \<open>\<^verbatim>\<open>range(n)\<close> for a Python integer: empty when \<open>n \<le> 0\<close>.\<close>

definition range_of :: "int \<Rightarrow> nat list" where
  "range_of n = [0..<nat n]"

text \<open>
  The closure \<^verbatim>\<open>objective(trial)\<close>, with the variables it captures from \<^verbatim>\<open>main\<close>
  (\<^verbatim>\<open>args\<close>, \<^verbatim>\<open>device\<close> and the two loaders) as parameters. Reading \<^verbatim>\<open>test_loss\<close> at
  \<^verbatim>\<open>return\<close> raises when no pass of the loop has bound it. The trial comes back with the
  parameters suggested to it.
\<close>

definition objective ::
  "('x, 'p, 'g, 'o, 'r) torch \<Rightarrow> args \<Rightarrow> device \<Rightarrow> nat \<Rightarrow> nat \<Rightarrow> trial \<Rightarrow> ('x, 'r, 'p) world \<Rightarrow>
   (real \<times> trial, ('x, 'r, 'p) world) outcome" where
  "objective lib a dev train_loader test_loader t w =
     (let (l, t) = suggest_float t ''lr'' (1 / 10000) (1 / 10) True;
          (g, t) = suggest_float t ''gamma'' (1 / 2) (9 / 10) False;
          (m, w) = Net lib dev w;
          opt = Adam lib m l;
          sch = StepLR opt 1 g
      in case epoch_loop lib a dev train_loader test_loader (range_of (epochs a))
                (m, opt, sch, None) w of
           Raise e w \<Rightarrow> Raise e w
         | Return (m, opt, sch, test_loss) w \<Rightarrow>
             (case test_loss of
                None \<Rightarrow> Raise UnboundLocalError w
              | Some v \<Rightarrow> Return (v, t) w))"

subsection \<open>\<^verbatim>\<open>main\<close>\<close>

text \<open>
  What \<^verbatim>\<open>main\<close> reads from outside: whether CUDA is available, the constant
  \<^verbatim>\<open>PLR_ROOT_DIR\<close> of the package and the files below it (their paths relative to it),
  the two MNIST datasets, and the sampler of the optuna study. The network and the file
  system are taken to work: login, download and the creation of directories succeed.
\<close>

record 'x env =
  cuda_available :: bool
  PLR_ROOT_DIR :: string
  root_files :: "string list"
  mnist_train :: "('x \<times> nat) list"
  mnist_test :: "('x \<times> nat) list"
  optuna_sampler :: sampler

text \<open>\<^verbatim>\<open>os.path.join(a, b)\<close> for a relative \<open>b\<close>.\<close>

definition path_join :: "string \<Rightarrow> string \<Rightarrow> string" where
  "path_join a b = (if a = [] then b else if last a = CHR ''/'' then a @ b else a @ ''/'' @ b)"

text \<open>\<^verbatim>\<open>os.makedirs(path, exist_ok=True)\<close>.\<close>

definition makedirs :: "string \<Rightarrow> ('x, 'r, 'p) world \<Rightarrow> ('x, 'r, 'p) world" where
  "makedirs path w = w\<lparr>dirs := List.insert path (dirs w)\<rparr>"

definition include_fn :: "string \<Rightarrow> string \<Rightarrow> bool" where
  "include_fn path root_dir = (suffix ''.py'' path \<or> suffix ''.yaml'' path)"

text \<open>
  \<^verbatim>\<open>run.log_code(name, root, include_fn)\<close> walks the files below the root and saves, under
  its relative path, each file that \<^verbatim>\<open>include_fn\<close> accepts and \<^verbatim>\<open>exclude_fn\<close> does not
  refuse. The script passes no \<^verbatim>\<open>exclude_fn\<close>, so the default applies: it refuses what lies
  in a directory \<^verbatim>\<open>wandb\<close> or \<^verbatim>\<open>.wandb\<close> directly below the root.
\<close>

definition exclude_wandb_fn :: "string \<Rightarrow> bool" where
  "exclude_wandb_fn rel = (prefix ''wandb/'' rel \<or> prefix ''.wandb/'' rel)"

definition log_code :: "string \<Rightarrow> (string \<Rightarrow> string \<Rightarrow> bool) \<Rightarrow> string list \<Rightarrow> string list" where
  "log_code root_dir incl files =
     filter (\<lambda>rel. incl (path_join root_dir rel) root_dir \<and> \<not> exclude_wandb_fn rel) files"

text \<open>The keyword arguments \<^verbatim>\<open>main\<close> collects for a loader, with the loader's defaults.\<close>

record kwargs =
  kw_batch_size :: int
  kw_num_workers :: nat
  kw_pin_memory :: bool
  kw_shuffle :: bool

definition kwargs_of :: "int \<Rightarrow> kwargs" where
  "kwargs_of n = \<lparr>kw_batch_size = n, kw_num_workers = 0, kw_pin_memory = False, kw_shuffle = False\<rparr>"

definition cuda_kwargs :: "kwargs \<Rightarrow> kwargs" where
  "cuda_kwargs k = k\<lparr>kw_num_workers := 1, kw_pin_memory := True, kw_shuffle := True\<rparr>"

text \<open>
  The constructor \<^verbatim>\<open>DataLoader(dataset, **kwargs)\<close>: with \<^verbatim>\<open>shuffle=True\<close> it builds a
  random sampler, which refuses an empty dataset; then a batch sampler, which refuses a
  batch size that is not positive; otherwise a new loader is stored and its address
  returned.
\<close>

definition DataLoader ::
  "('x \<times> nat) list \<Rightarrow> kwargs \<Rightarrow> ('x, 'r, 'p) world \<Rightarrow> (nat, ('x, 'r, 'p) world) outcome" where
  "DataLoader ds k w =
     (if kw_shuffle k \<and> ds = [] then Raise ValueError w
      else if kw_batch_size k \<le> 0 then Raise ValueError w
      else Return (next_loader w)
             (w\<lparr>loaders := (loaders w)(next_loader w :=
                    \<lparr>dataset = ds, loader_batch_size = nat (kw_batch_size k),
                     shuffle = kw_shuffle k, num_workers = kw_num_workers k,
                     pin_memory = kw_pin_memory k\<rparr>),
                 next_loader := Suc (next_loader w)\<rparr>))"

text \<open>The \<^verbatim>\<open>print\<close> statements that follow \<^verbatim>\<open>study.best_trial\<close>.\<close>

definition report :: "frozen_trial \<Rightarrow> ('x, 'r, 'p) world \<Rightarrow> ('x, 'r, 'p) world" where
  "report t w =
     (let w = print (ValueLine (ft_value t)) w;
          w = print ParamsLine w
      in foldl (\<lambda>w (key, v). print (ParamLine key v) w) w (ft_params t))"

text \<open>
  \<^verbatim>\<open>main\<close>, for the arguments \<^verbatim>\<open>parse_args\<close> returned. The two lines that would save
  the model are a comment in the source, so nothing here writes \<open>saved_models\<close>.
\<close>

definition main ::
  "('x, 'p, 'g, 'o, 'r) torch \<Rightarrow> 'x env \<Rightarrow> args \<Rightarrow> ('x, 'r, 'p) world \<Rightarrow>
   (unit, ('x, 'r, 'p) world) outcome" where
  "main lib env a w =
     (let w = w\<lparr>wandb_logged_in := True\<rparr>;
          w = makedirs (path_join (PLR_ROOT_DIR env) ''results'') w;
          w = w\<lparr>wandb_config := Some a\<rparr>;
          w = w\<lparr>wandb_code := Some (log_code (PLR_ROOT_DIR env) include_fn (root_files env))\<rparr>;
          use_cuda = (\<not> no_cuda a \<and> cuda_available env)
      in case torch_manual_seed lib (seed a) w of
           Raise e w \<Rightarrow> Raise e w
         | Return u w \<Rightarrow>
             (let dev = (if use_cuda then Cuda else Cpu);
                  train_kwargs = kwargs_of (batch_size a);
                  test_kwargs = kwargs_of (test_batch_size a);
                  train_kwargs = (if use_cuda then cuda_kwargs train_kwargs else train_kwargs);
                  test_kwargs = (if use_cuda then cuda_kwargs test_kwargs else test_kwargs)
              in case DataLoader (mnist_train env) train_kwargs w of
                   Raise e w \<Rightarrow> Raise e w
                 | Return train_loader w \<Rightarrow>
                     (case DataLoader (mnist_test env) test_kwargs w of
                        Raise e w \<Rightarrow> Raise e w
                      | Return test_loader w \<Rightarrow>
                          (case optimize (objective lib a dev train_loader test_loader)
                                  (optuna_sampler env) 5 (create_study Minimize) w of
                             Raise e w \<Rightarrow> Raise e w
                           | Return st w \<Rightarrow>
                               (let w = print BestTrialLine w
                                in case best_trial st of
                                     Inl e \<Rightarrow> Raise e w
                                   | Inr t \<Rightarrow>
                                       Return ()
                                         ((report t w)\<lparr>wandb_finished := True\<rparr>))))))"

section \<open>Reference definitions\<close>

subsection \<open>Outcomes\<close>

fun map_world :: "('w \<Rightarrow> 'w) \<Rightarrow> ('a, 'w) outcome \<Rightarrow> ('a, 'w) outcome" where
  "map_world f (Raise e w) = Raise e (f w)"
| "map_world f (Return a w) = Return a (f w)"

fun map_result :: "('a \<Rightarrow> 'b) \<Rightarrow> ('a, 'w) outcome \<Rightarrow> ('b, 'w) outcome" where
  "map_result f (Raise e w) = Raise e w"
| "map_result f (Return a w) = Return (f a) w"

subsection \<open>The evaluation step\<close>

text \<open>
  The summed loss of every test batch, in the order the loader yields them, or the first
  exception: what the evaluation step is described to accumulate. The generator state is
  threaded through the forward passes as in the loop.
\<close>

fun batch_losses ::
  "('x, 'p, 'g, 'o, 'r) torch \<Rightarrow> ('p, 'g) model \<Rightarrow> ('x list \<times> nat list) list \<Rightarrow> 'r \<Rightarrow>
   error + real list" where
  "batch_losses lib m [] r = Inr []"
| "batch_losses lib m ((data, target) # rest) r =
     (let (output, r1) = forward lib (params m) (training m) r data
      in case nll_loss output target Sum of
           Inl e \<Rightarrow> Inl e
         | Inr l \<Rightarrow>
             (case batch_losses lib m rest r1 of Inl e \<Rightarrow> Inl e | Inr ls \<Rightarrow> Inr (l # ls)))"

subsection \<open>The objective\<close>

text \<open>
  What a trial computes, written from the description of the objective and not from its
  loops. The state of a trial is the parameters of its model, the state of its optimizer
  and the state of the generator.

  One optimisation step on a batch: the gradient of the batch's loss at the current
  parameters, and one Adam update with it at the given learning rate. The forward pass
  in training mode advances the generator.
\<close>

definition adam_step ::
  "('x, 'p, 'g, 'o, 'r) torch \<Rightarrow> real \<Rightarrow> 'x list \<times> nat list \<Rightarrow> 'p \<times> 'o \<times> 'r \<Rightarrow> 'p \<times> 'o \<times> 'r" where
  "adam_step lib rate b s =
     (case s of (p, os, r) \<Rightarrow>
        (let (p', os') = adam_update lib rate os (Some (autograd lib p r (fst b) (snd b))) p
         in (p', os', snd (forward lib p True r (fst b)))))"

text \<open>
  Training for one epoch: one step on every batch the train loader yields, in its order;
  on the first batch only in dry-run mode.
\<close>

definition train_epoch ::
  "('x, 'p, 'g, 'o, 'r) torch \<Rightarrow> args \<Rightarrow> 'x loader \<Rightarrow> real \<Rightarrow> 'p \<times> 'o \<times> 'r \<Rightarrow> 'p \<times> 'o \<times> 'r" where
  "train_epoch lib a trl rate s =
     (case s of (p, os, r) \<Rightarrow>
        (let (bs, r1) = loader_iter lib trl r
         in foldl (\<lambda>s b. adam_step lib rate b s) (p, os, r1)
              (if dry_run a then take 1 bs else bs)))"

text \<open>
  The negative log-likelihood of the test batches, summed: for every sample the negated
  score that the model, in evaluation mode, gives the sample's class.
\<close>

fun summed_loss ::
  "('x, 'p, 'g, 'o, 'r) torch \<Rightarrow> 'p \<Rightarrow> ('x list \<times> nat list) list \<Rightarrow> 'r \<Rightarrow> real" where
  "summed_loss lib p [] r = 0"
| "summed_loss lib p (b # bs) r =
     (\<Sum>(row, t) \<leftarrow> zip (fst (forward lib p False r (fst b))) (snd b). - (row ! t)) +
     summed_loss lib p bs (snd (forward lib p False r (fst b)))"

definition evaluation_rng ::
  "('x, 'p, 'g, 'o, 'r) torch \<Rightarrow> 'p \<Rightarrow> ('x list \<times> nat list) list \<Rightarrow> 'r \<Rightarrow> 'r" where
  "evaluation_rng lib p bs r = foldl (\<lambda>r b. snd (forward lib p False r (fst b))) r bs"

text \<open>
  Testing after an epoch: the test loss is the summed loss over the size of the test
  dataset; parameters and optimizer stay as they are.
\<close>

definition test_epoch ::
  "('x, 'p, 'g, 'o, 'r) torch \<Rightarrow> 'x loader \<Rightarrow> 'p \<times> 'o \<times> 'r \<Rightarrow> real \<times> 'p \<times> 'o \<times> 'r" where
  "test_epoch lib tel s =
     (case s of (p, os, r) \<Rightarrow>
        (let (bs, r1) = loader_iter lib tel r
         in (summed_loss lib p bs r1 / real (length (dataset tel)),
             p, os, evaluation_rng lib p bs r1)))"

text \<open>
  The epoch loop run \<open>n\<close> times from learning rate \<open>l\<close> with decay \<open>g\<close>: epoch \<open>e\<close>
  trains at the rate \<open>l * g ^ e\<close> (the scheduler has stepped \<open>e\<close> times) and then tests.
  The result is the test loss of the last epoch run, if any, and the state reached.
\<close>

primrec epochs_run ::
  "('x, 'p, 'g, 'o, 'r) torch \<Rightarrow> args \<Rightarrow> 'x loader \<Rightarrow> 'x loader \<Rightarrow> real \<Rightarrow> real \<Rightarrow> nat \<Rightarrow>
   'p \<times> 'o \<times> 'r \<Rightarrow> real option \<times> 'p \<times> 'o \<times> 'r" where
  "epochs_run lib a trl tel l g 0 s = (None, s)"
| "epochs_run lib a trl tel l g (Suc e) s =
     (let (v, s) = test_epoch lib tel
                     (train_epoch lib a trl (l * g ^ e) (snd (epochs_run lib a trl tel l g e s)))
      in (Some v, s))"

text \<open>
  The loss of a trial with learning rate \<open>l\<close> and decay \<open>g\<close> that starts at generator
  state \<open>r\<close>: a new model, a new optimizer for it, \<open>args.epochs\<close> epochs, and the test
  loss of the last of them.
\<close>

definition trial_loss ::
  "('x, 'p, 'g, 'o, 'r) torch \<Rightarrow> args \<Rightarrow> 'x loader \<Rightarrow> 'x loader \<Rightarrow> real \<Rightarrow> real \<Rightarrow> 'r \<Rightarrow>
   real option" where
  "trial_loss lib a trl tel l g r =
     (let (p0, r0) = net_init lib r
      in fst (epochs_run lib a trl tel l g (nat (epochs a)) (p0, adam_init lib p0, r0)))"

subsection \<open>The network\<close>

text \<open>
  Modelled from the spec: the class \<^verbatim>\<open>Net\<close> of \<^verbatim>\<open>plr_exercise.models\<close> is not part of the
  script, which trains it as a classifier with the negative log-likelihood loss and
  calls its outputs log-probabilities. A row of scores is a row of log-probabilities
  when the exponentials of its entries sum to one.
\<close>

definition log_probabilities :: "real list \<Rightarrow> bool" where
  "log_probabilities row = ((\<Sum>s\<leftarrow>row. exp s) = 1)"


subsection \<open>The parts of \<^verbatim>\<open>main\<close>\<close>

definition uses_cuda :: "'x env \<Rightarrow> args \<Rightarrow> bool" where
  "uses_cuda env a = (\<not> no_cuda a \<and> cuda_available env)"

definition device_of :: "'x env \<Rightarrow> args \<Rightarrow> device" where
  "device_of env a = (if uses_cuda env a then Cuda else Cpu)"

definition loader_kwargs :: "'x env \<Rightarrow> args \<Rightarrow> int \<Rightarrow> kwargs" where
  "loader_kwargs env a n = (if uses_cuda env a then cuda_kwargs (kwargs_of n) else kwargs_of n)"

text \<open>
  What \<^verbatim>\<open>main\<close> does before it defines the closure: login, the results directory, the
  start of the wandb run and the code snapshot (\<open>main_start\<close>); then the seeding and the
  construction of the train loader and of the test loader (\<open>main_loaders\<close>). It returns
  the addresses of the two loaders, or raises what the seeding or a constructor raises.
\<close>

definition main_start :: "'x env \<Rightarrow> args \<Rightarrow> ('x, 'r, 'p) world \<Rightarrow> ('x, 'r, 'p) world" where
  "main_start env a w =
     (let w = w\<lparr>wandb_logged_in := True\<rparr>;
          w = makedirs (path_join (PLR_ROOT_DIR env) ''results'') w;
          w = w\<lparr>wandb_config := Some a\<rparr>
      in w\<lparr>wandb_code := Some (log_code (PLR_ROOT_DIR env) include_fn (root_files env))\<rparr>)"

definition main_loaders ::
  "('x, 'p, 'g, 'o, 'r) torch \<Rightarrow> 'x env \<Rightarrow> args \<Rightarrow> ('x, 'r, 'p) world \<Rightarrow>
   (nat \<times> nat, ('x, 'r, 'p) world) outcome" where
  "main_loaders lib env a w =
     (case torch_manual_seed lib (seed a) w of
        Raise e w \<Rightarrow> Raise e w
      | Return u w \<Rightarrow>
          (case DataLoader (mnist_train env) (loader_kwargs env a (batch_size a)) w of
             Raise e w \<Rightarrow> Raise e w
           | Return train_loader w \<Rightarrow>
               (case DataLoader (mnist_test env) (loader_kwargs env a (test_batch_size a)) w of
                  Raise e w \<Rightarrow> Raise e w
                | Return test_loader w \<Rightarrow> Return (train_loader, test_loader) w)))"

definition main_setup ::
  "('x, 'p, 'g, 'o, 'r) torch \<Rightarrow> 'x env \<Rightarrow> args \<Rightarrow> ('x, 'r, 'p) world \<Rightarrow>
   (nat \<times> nat, ('x, 'r, 'p) world) outcome" where
  "main_setup lib env a w = main_loaders lib env a (main_start env a w)"

text \<open>
  What \<^verbatim>\<open>main\<close> does after it has defined the closure, given the addresses of the two
  loaders: a study that minimizes, five trials of the closure over these two loaders,
  and the report of the best trial.
\<close>

definition main_report :: "study \<Rightarrow> ('x, 'r, 'p) world \<Rightarrow> (unit, ('x, 'r, 'p) world) outcome" where
  "main_report st w =
     (let w = print BestTrialLine w
      in case best_trial st of
           Inl e \<Rightarrow> Raise e w
         | Inr t \<Rightarrow> Return () ((report t w)\<lparr>wandb_finished := True\<rparr>))"

definition main_search ::
  "('x, 'p, 'g, 'o, 'r) torch \<Rightarrow> 'x env \<Rightarrow> args \<Rightarrow> nat \<Rightarrow> nat \<Rightarrow> ('x, 'r, 'p) world \<Rightarrow>
   (unit, ('x, 'r, 'p) world) outcome" where
  "main_search lib env a train_loader test_loader w =
     (case optimize (objective lib a (device_of env a) train_loader test_loader)
             (optuna_sampler env) 5 (create_study Minimize) w of
        Raise e w \<Rightarrow> Raise e w
      | Return st w \<Rightarrow> main_report st w)"

text \<open>
  The parameters of a trial are the two the objective declares, each in its declared
  range.
\<close>

definition in_ranges :: "(string \<times> real) list \<Rightarrow> bool" where
  "in_ranges ps =
     (case ps of
        [(k1, l), (k2, g)] \<Rightarrow>
          k1 = ''lr'' \<and> k2 = ''gamma'' \<and> 1 / 10000 \<le> l \<and> l \<le> 1 / 10 \<and> 1 / 2 \<le> g \<and> g \<le> 9 / 10
      | _ \<Rightarrow> False)"

subsection \<open>The world\<close>

text \<open>
  The part of the world that training and evaluation leave alone: everything but the
  generator, the printed lines and the logged metrics. \<open>set_config\<close> is what
  \<^verbatim>\<open>wandb.init(config=...)\<close> records.
\<close>

definition frame_of ::
  "('x, 'r, 'p) world \<Rightarrow>
   (nat \<Rightarrow> 'x loader) \<times> nat \<times> (string \<times> 'p) list \<times> args option \<times> string list option \<times>
   string list \<times> bool \<times> bool" where
  "frame_of w =
     (loaders w, next_loader w, saved_models w, wandb_config w, wandb_code w, dirs w,
      wandb_logged_in w, wandb_finished w)"

definition set_config :: "args option \<Rightarrow> ('x, 'r, 'p) world \<Rightarrow> ('x, 'r, 'p) world" where
  "set_config c w = w\<lparr>wandb_config := c\<rparr>"

subsection \<open>A small instance\<close>

text \<open>
  A library whose model scores class 0 with \<open>s\<close> and class 1 with \<open>s - 1\<close> whatever
  the input, whose optimizer leaves the parameters alone and whose shuffling reverses
  the dataset; a dataset of three samples; an empty world holding one loader; a sampler
  that answers the middle of the range; arguments for one epoch in dry-run mode.
\<close>

definition toy_torch :: "real \<Rightarrow> (nat, unit, unit, unit, unit) torch" where
  "toy_torch s =
     \<lparr>manual_seed = (\<lambda>n. ()), net_init = (\<lambda>r. ((), r)),
      forward = (\<lambda>p t r xs. (map (\<lambda>x. [s, s - 1]) xs, r)),
      autograd = (\<lambda>p r xs ts. ()), grad_add = (\<lambda>g h. ()),
      adam_init = (\<lambda>p. ()), adam_update = (\<lambda>l s g p. (p, s)),
      randperm = (\<lambda>r n. (rev [0..<n], r))\<rparr>"

definition toy_loader :: "nat \<Rightarrow> bool \<Rightarrow> nat loader" where
  "toy_loader n sh =
     \<lparr>dataset = [(5, 0), (6, 1), (7, 0)], loader_batch_size = n, shuffle = sh,
      num_workers = 0, pin_memory = False\<rparr>"

definition toy_world :: "nat loader \<Rightarrow> (nat, unit, unit) world" where
  "toy_world l =
     \<lparr>rng = (), loaders = (\<lambda>i. l), next_loader = 1, printed = [], wandb_logged_in = False,
      wandb_config = None, wandb_code = None, wandb_history = [], wandb_finished = False,
      dirs = [], saved_models = []\<rparr>"

definition toy_model :: "(unit, unit) model" where
  "toy_model = \<lparr>params = (), grad = None, training = True\<rparr>"

definition toy_sampler :: sampler where
  "toy_sampler hist k name low high log_scale = (low + high) / 2"

definition toy_env :: "nat env" where
  "toy_env =
     \<lparr>cuda_available = False, PLR_ROOT_DIR = ''/plr'',
      root_files = [''scripts/train.py'', ''README.md'', ''wandb/debug.py''],
      mnist_train = [(5, 0), (6, 1), (7, 0)], mnist_test = [(8, 1), (9, 0)],
      optuna_sampler = toy_sampler\<rparr>"

definition toy_args :: args where
  "toy_args = default_args\<lparr>batch_size := 2, test_batch_size := 2, epochs := 1, dry_run := True\<rparr>"

definition toy_optimizer :: "unit optimizer" where
  "toy_optimizer = \<lparr>lr = 1 / 100, adam_state = (), step_count = 0\<rparr>"

definition toy_trial :: trial where
  "toy_trial = ask toy_sampler (create_study Minimize)"

text \<open>
  A library whose model gives both classes the probability one half.
\<close>

definition uniform_torch :: "(nat, unit, unit, unit, unit) torch" where
  "uniform_torch =
     \<lparr>manual_seed = (\<lambda>n. ()), net_init = (\<lambda>r. ((), r)),
      forward = (\<lambda>p t r xs. (map (\<lambda>x. [- ln 2, - ln 2]) xs, r)),
      autograd = (\<lambda>p r xs ts. ()), grad_add = (\<lambda>g h. ()),
      adam_init = (\<lambda>p. ()), adam_update = (\<lambda>l s g p. (p, s)),
      randperm = (\<lambda>r n. (rev [0..<n], r))\<rparr>"

section \<open>Properties\<close>

subsection \<open>Evaluating the small instance\<close>

lemmas toy_defs = toy_torch_def toy_loader_def toy_world_def toy_model_def

lemmas toy_defs2 = toy_defs toy_sampler_def toy_env_def toy_args_def toy_optimizer_def toy_trial_def default_args_def

lemmas run_defs = test_def loader_iter_def collate_def nll_loss_def count_correct_def
  print_def wandb_log_def Let_def

lemmas run_defs2 = run_defs train_def objective_def main_def Net_def Adam_def StepLR_def scheduler_step_def
  zero_grad_def backward_def optimizer_step_def suggest_float_def ask_def tell_def create_study_def
  best_trial_def better_def range_of_def report_def DataLoader_def kwargs_of_def cuda_kwargs_def makedirs_def
  path_join_def include_fn_def len_loader_def torch_manual_seed_def log_code_def exclude_wandb_fn_def

lemma batched_eval:
  "batched 0 xs = []"
  "batched n [] = []"
  "batched (Suc n) (x # xs) = take (Suc n) (x # xs) # batched (Suc n) (drop (Suc n) (x # xs))"
  by (simp_all add: batched.simps)

lemmas eval_simps = toy_defs2 run_defs2 batched_eval numeral_2_eq_2 numeral_3_eq_3 eval_nat_numeral

lemma toy_test_loop_prefix:
  "result_of (test_loop (toy_torch (- 1)) toy_model Cpu
      (take 1 (fst (loader_iter (toy_torch (- 1)) (toy_loader 2 True) ()))) (0, 0)
      (toy_world (toy_loader 2 True))) = Inr (3, 1)"
  by (simp add: toy_defs run_defs batched_eval numeral_2_eq_2 numeral_3_eq_3 upt_rec)



lemma toy_objective_returns:
  "returns (objective (toy_torch (- 1)) toy_args Cpu 0 0 toy_trial (toy_world (toy_loader 2 False)))"
  by (simp add: eval_simps)

lemma toy_objective_unbound:
  "result_of (objective (toy_torch (- 1)) (toy_args\<lparr>epochs := 0\<rparr>) Cpu 0 0 toy_trial
     (toy_world (toy_loader 2 False))) = Inl UnboundLocalError"
  by (simp add: eval_simps)

subsection \<open>What training and evaluation leave alone\<close>

lemma frame_of_updates [simp]:
  "frame_of (w\<lparr>rng := r\<rparr>) = frame_of w"
  "frame_of (print l w) = frame_of w"
  "frame_of (wandb_log x w) = frame_of w"
  by (simp_all add: frame_of_def print_def wandb_log_def)

lemma test_loop_frame: "frame_of (world_of (test_loop lib m dev bs acc w)) = frame_of w"
proof (induction bs arbitrary: acc w)
  case Nil
  show ?case by simp
next
  case (Cons b bs)
  obtain data target where b: "b = (data, target)" by (cases b)
  obtain l0 c0 where acc: "acc = (l0, c0)" by (cases acc)
  show ?case
    by (simp add: b acc Cons.IH Let_def split: prod.splits sum.splits)
qed

lemma test_frame: "frame_of (world_of (test lib m dev tel epoch w)) = frame_of w"
proof -
  obtain batches r where it: "loader_iter lib (loaders w tel) (rng w) = (batches, r)"
    by (cases "loader_iter lib (loaders w tel) (rng w)")
  have "frame_of (world_of (test_loop lib (m\<lparr>training := False\<rparr>) dev batches (0, 0) (w\<lparr>rng := r\<rparr>)))
        = frame_of w"
    by (simp add: test_loop_frame)
  then show ?thesis
    by (cases "test_loop lib (m\<lparr>training := False\<rparr>) dev batches (0, 0) (w\<lparr>rng := r\<rparr>)")
       (simp_all add: test_def it Let_def split: prod.splits)
qed

lemma train_loop_frame:
  "frame_of (world_of (train_loop lib a dev trl epoch i bs st w)) = frame_of w"
proof (induction bs arbitrary: i st w)
  case Nil
  show ?case by (cases st) simp
next
  case (Cons b bs)
  obtain data target where b: "b = (data, target)" by (cases b)
  obtain m opt where st: "st = (m, opt)" by (cases st)
  show ?case
    by (simp add: b st Cons.IH Let_def split: prod.splits sum.splits)
qed

lemma train_frame: "frame_of (world_of (train lib a m dev trl opt epoch w)) = frame_of w"
  by (simp add: train_def Let_def train_loop_frame split: prod.splits)

lemma epoch_loop_frame:
  "frame_of (world_of (epoch_loop lib a dev trl tel es st w)) = frame_of w"
proof (induction es arbitrary: st w)
  case Nil
  show ?case by simp
next
  case (Cons e es)
  obtain m opt sch total where st: "st = (m, opt, sch, total)" by (cases st)
  show ?case
  proof (cases "train lib a m dev trl opt e w")
    case (Raise x w1)
    with train_frame[of lib a m dev trl opt e w] show ?thesis by (simp add: st)
  next
    case (Return mo w1)
    obtain m1 opt1 where mo: "mo = (m1, opt1)" by (cases mo)
    from Return train_frame[of lib a m dev trl opt e w] have f1: "frame_of w1 = frame_of w" by simp
    show ?thesis
    proof (cases "test lib m1 dev tel e w1")
      case (Raise x w2)
      with test_frame[of lib m1 dev tel e w1] f1 show ?thesis
        using Return mo by (simp add: st)
    next
      case R2: (Return vm w2)
      obtain v m2 where vm: "vm = (v, m2)" by (cases vm)
      from R2 test_frame[of lib m1 dev tel e w1] f1 have "frame_of w2 = frame_of w" by simp
      then show ?thesis using Return mo R2 vm
        by (simp add: st Cons.IH Let_def split: prod.splits)
    qed
  qed
qed

lemma Net_frame [simp]: "frame_of (snd (Net lib dev w)) = frame_of w"
  by (simp add: Net_def Let_def split: prod.splits)

lemma objective_frame:
  "frame_of (world_of (objective lib a dev trl tel t w)) = frame_of w"
proof -
  obtain l t1 where s1: "suggest_float t ''lr'' (1 / 10000) (1 / 10) True = (l, t1)"
    by (cases "suggest_float t ''lr'' (1 / 10000) (1 / 10) True")
  obtain g t2 where s2: "suggest_float t1 ''gamma'' (1 / 2) (9 / 10) False = (g, t2)"
    by (cases "suggest_float t1 ''gamma'' (1 / 2) (9 / 10) False")
  obtain m w1 where n: "Net lib dev w = (m, w1)" by (cases "Net lib dev w")
  from Net_frame[of lib dev w] n have f1: "frame_of w1 = frame_of w" by simp
  let ?run = "epoch_loop lib a dev trl tel (range_of (epochs a)) (m, Adam lib m l, StepLR (Adam lib m l) 1 g, None) w1"
  have "frame_of (world_of ?run) = frame_of w" using f1 by (simp add: epoch_loop_frame)
  then show ?thesis
    by (cases ?run) (simp_all add: objective_def s1 s2 n Let_def split: prod.splits option.splits)
qed

lemma optimize_frame:
  assumes "\<And>t w. frame_of (world_of (obj t w)) = frame_of w"
  shows "frame_of (world_of (optimize obj smp k st w)) = frame_of w"
proof (induction k arbitrary: st w)
  case 0
  show ?case by simp
next
  case (Suc k)
  show ?case
  proof (cases "obj (ask smp st) w")
    case (Raise e w1)
    with assms[of "ask smp st" w] show ?thesis by simp
  next
    case (Return vt w1)
    obtain v t where vt: "vt = (v, t)" by (cases vt)
    from Return assms[of "ask smp st" w] have "frame_of w1 = frame_of w" by simp
    with Return vt show ?thesis by (simp add: Suc.IH)
  qed
qed

lemma search_frame:
  "frame_of (world_of (optimize (objective lib a dev trl tel) smp k st w)) = frame_of w"
  by (rule optimize_frame) (rule objective_frame)

lemma report_lines_frame:
  "frame_of (foldl (\<lambda>w (key, v). print (ParamLine key v) w) w ps) = frame_of w"
  by (induction ps arbitrary: w) (simp_all split: prod.splits)

lemma report_frame: "frame_of (report t w) = frame_of w"
  by (simp add: report_def report_lines_frame Let_def)

lemma finish_frame:
  "saved_models ((report t w)\<lparr>wandb_finished := True\<rparr>) = saved_models w"
  "loaders ((report t w)\<lparr>wandb_finished := True\<rparr>) = loaders w"
  "next_loader ((report t w)\<lparr>wandb_finished := True\<rparr>) = next_loader w"
  using report_frame[of t w] by (simp_all add: frame_of_def)

subsection \<open>The evaluation step\<close>

lemma test_loop_losses:
  "map_sum (\<lambda>e. e) fst (result_of (test_loop lib m dev bs (l0, c0) w)) =
   map_sum (\<lambda>e. e) (\<lambda>ls. l0 + sum_list ls) (batch_losses lib m bs (rng w))"
proof (induction bs arbitrary: l0 c0 w)
  case Nil
  then show ?case by simp
next
  case (Cons b bs)
  obtain data target where b: "b = (data, target)" by (cases b)
  obtain out r where f: "forward lib (params m) (training m) (rng w) data = (out, r)"
    by (cases "forward lib (params m) (training m) (rng w) data")
  show ?case
  proof (cases "nll_loss out target Sum")
    case (Inl e)
    then show ?thesis by (simp add: b f Let_def)
  next
    case (Inr lb)
    have "map_sum (\<lambda>e. e) fst (result_of (test_loop lib m dev bs (l0 + lb, c0 + count_correct out target) (w\<lparr>rng := r\<rparr>))) =
      map_sum (\<lambda>e. e) (\<lambda>ls. l0 + lb + sum_list ls) (batch_losses lib m bs r)"
      using Cons.IH[of "l0 + lb" "c0 + count_correct out target" "w\<lparr>rng := r\<rparr>"] by simp
    then show ?thesis using Inr
      by (cases "batch_losses lib m bs r") (simp_all add: b f Let_def)
  qed
qed

lemma test_result:
  "result_of (test lib m dev test_loader epoch w) =
     (case batch_losses lib (m\<lparr>training := False\<rparr>)
             (fst (loader_iter lib (loaders w test_loader) (rng w)))
             (snd (loader_iter lib (loaders w test_loader) (rng w))) of
        Inl e \<Rightarrow> Inl e
      | Inr ls \<Rightarrow>
          if dataset (loaders w test_loader) = [] then Inl ZeroDivisionError
          else Inr (sum_list ls / real (length (dataset (loaders w test_loader))),
                    m\<lparr>training := False\<rparr>))"
proof -
  obtain batches r where it: "loader_iter lib (loaders w test_loader) (rng w) = (batches, r)"
    by (cases "loader_iter lib (loaders w test_loader) (rng w)")
  let ?m = "m\<lparr>training := False\<rparr>"
  let ?w = "w\<lparr>rng := r\<rparr>"
  have L: "map_sum (\<lambda>e. e) fst (result_of (test_loop lib ?m dev batches (0, 0) ?w)) =
           map_sum (\<lambda>e. e) (\<lambda>ls. 0 + sum_list ls) (batch_losses lib ?m batches r)"
    using test_loop_losses[of lib ?m dev batches 0 0 ?w] by simp
  have U: "loaders (world_of (test_loop lib ?m dev batches (0, 0) ?w)) = loaders w"
    using test_loop_frame[of lib ?m dev batches "(0, 0)" ?w] by (simp add: frame_of_def)
  show ?thesis
  proof (cases "test_loop lib ?m dev batches (0, 0) ?w")
    case (Raise e w1)
    with L have "batch_losses lib ?m batches r = Inl e"
      by (cases "batch_losses lib ?m batches r") simp_all
    with Raise show ?thesis by (simp add: test_def it)
  next
    case (Return acc w1)
    obtain total c where acc: "acc = (total, c)" by (cases acc)
    from L Return acc obtain ls where ls: "batch_losses lib ?m batches r = Inr ls" "total = sum_list ls"
      by (cases "batch_losses lib ?m batches r") simp_all
    from U Return have "loaders w1 = loaders w" by simp
    with Return acc ls show ?thesis by (simp add: test_def it Let_def)
  qed
qed

text \<open>
  \<^bold>\<open>Claim C3.\<close> Whatever the model, the loader and the world, \<open>test\<close> returns the sum of
  the summed negative-log-likelihood losses of all test batches divided by the size of
  the test dataset, together with the model in evaluation mode and otherwise unchanged
  (no gradient is stored). It raises exactly when a batch loss raises or the dataset is
  empty.
\<close>

theorem test_returns_average_loss:
  "result_of (test lib m dev test_loader epoch w) =
     (case batch_losses lib (m\<lparr>training := False\<rparr>)
             (fst (loader_iter lib (loaders w test_loader) (rng w)))
             (snd (loader_iter lib (loaders w test_loader) (rng w))) of
        Inl e \<Rightarrow> Inl e
      | Inr ls \<Rightarrow>
          if dataset (loaders w test_loader) = [] then Inl ZeroDivisionError
          else Inr (sum_list ls / real (length (dataset (loaders w test_loader))),
                    m\<lparr>training := False\<rparr>))"
  by (rule test_result)

subsection \<open>The count of correct predictions\<close>

lemma count_correct_le: "count_correct out target \<le> length target"
  unfolding count_correct_def
  by (rule order_trans[OF length_filter_le]) simp

lemma test_loop_correct_le:
  "result_of (test_loop lib m dev bs (l0, c0) w) = Inr (l, c) \<Longrightarrow>
   c \<le> c0 + sum_list (map (\<lambda>b. length (snd b)) bs)"
proof (induction bs arbitrary: l0 c0 w)
  case Nil
  then show ?case by simp
next
  case (Cons b bs)
  obtain data target where b: "b = (data, target)" by (cases b)
  obtain out r where f: "forward lib (params m) (training m) (rng w) data = (out, r)"
    by (cases "forward lib (params m) (training m) (rng w) data")
  from Cons.prems b f obtain lb where
    nl: "nll_loss out target Sum = Inr lb" and
    rec: "result_of (test_loop lib m dev bs (l0 + lb, c0 + count_correct out target) (w\<lparr>rng := r\<rparr>))
          = Inr (l, c)"
    by (auto simp: Let_def split: sum.splits)
  from Cons.IH[OF rec]
  have "c \<le> c0 + count_correct out target + sum_list (map (\<lambda>b. length (snd b)) bs)" .
  with count_correct_le[of out target] show ?case by (simp add: b)
qed

lemma batched_lengths: "sum_list (map length (batched n xs)) \<le> length xs"
proof (induction n xs rule: batched.induct)
  case (1 n xs)
  show ?case
  proof (cases "n = 0 \<or> xs = []")
    case True
    then show ?thesis by (simp add: batched.simps)
  next
    case False
    with 1 have "sum_list (map length (batched n (drop n xs))) \<le> length (drop n xs)" by simp
    with False show ?thesis by (subst batched.simps) simp
  qed
qed

lemma sum_list_take_le: "sum_list (take k (ns :: nat list)) \<le> sum_list ns"
proof -
  have "sum_list ns = sum_list (take k ns) + sum_list (drop k ns)"
    by (metis append_take_drop_id sum_list_append)
  then show ?thesis by simp
qed

lemma collated_sizes:
  "sum_list (map (\<lambda>b. length (snd b)) (map collate bs)) = sum_list (map length bs)"
  by (induction bs) (simp_all add: collate_def)

lemma loader_batches_total:
  assumes "shuffle l \<longrightarrow> length (fst (randperm lib r (length (dataset l)))) = length (dataset l)"
  shows "sum_list (map (\<lambda>b. length (snd b)) (fst (loader_iter lib l r))) \<le> length (dataset l)"
proof (cases "shuffle l")
  case False
  then have "fst (loader_iter lib l r) = map collate (batched (loader_batch_size l) (dataset l))"
    by (simp add: loader_iter_def)
  then show ?thesis
    using batched_lengths[of "loader_batch_size l" "dataset l"] by (simp only: collated_sizes)
next
  case True
  obtain order r' where p: "randperm lib r (length (dataset l)) = (order, r')"
    by (cases "randperm lib r (length (dataset l))")
  with assms True have len: "length order = length (dataset l)" by simp
  from True p have "fst (loader_iter lib l r) =
      map collate (batched (loader_batch_size l) (map (\<lambda>i. dataset l ! i) order))"
    by (simp add: loader_iter_def)
  then show ?thesis
    using batched_lengths[of "loader_batch_size l" "map (\<lambda>i. dataset l ! i) order"] len
    by (simp only: collated_sizes length_map)
qed

text \<open>
  \<^bold>\<open>Claim C4.\<close> After the loop of \<open>test\<close> has processed any prefix (the first \<open>k\<close>) of the
  batches its loader yields, the accumulated count \<open>correct\<close>, a natural number, is at
  most the size of the loader's dataset. A shuffling loader visits as many samples as
  the dataset has, which is what \<open>randperm\<close> is assumed to provide.
\<close>

theorem test_correct_bounded:
  assumes "shuffle l \<longrightarrow> length (fst (randperm lib r (length (dataset l)))) = length (dataset l)"
    and "result_of (test_loop lib m dev (take k (fst (loader_iter lib l r))) (0, 0) w)
         = Inr (loss, correct)"
  shows "correct \<le> length (dataset l)"
proof -
  let ?bs = "fst (loader_iter lib l r)"
  from test_loop_correct_le[OF assms(2)]
  have "correct \<le> sum_list (map (\<lambda>b. length (snd b)) (take k ?bs))" by simp
  also have "\<dots> = sum_list (take k (map (\<lambda>b. length (snd b)) ?bs))" by (simp add: take_map)
  also have "\<dots> \<le> sum_list (map (\<lambda>b. length (snd b)) ?bs)" by (rule sum_list_take_le)
  also have "\<dots> \<le> length (dataset l)" by (rule loader_batches_total[OF assms(1)])
  finally show ?thesis .
qed

theorem test_correct_bounded_witness:
  "result_of (test_loop (toy_torch (- 1)) toy_model Cpu
      (take 1 (fst (loader_iter (toy_torch (- 1)) (toy_loader 2 True) ()))) (0, 0)
      (toy_world (toy_loader 2 True))) = Inr (3, 1) \<and>
   (1 :: nat) \<le> length (dataset (toy_loader 2 True))"
proof -
  have h: "shuffle (toy_loader 2 True) \<longrightarrow>
      length (fst (randperm (toy_torch (- 1)) () (length (dataset (toy_loader 2 True))))) =
      length (dataset (toy_loader 2 True))"
    by (simp add: toy_defs)
  from test_correct_bounded[OF h toy_test_loop_prefix] toy_test_loop_prefix
  show ?thesis by simp
qed

subsection \<open>The sign of the average loss\<close>

lemma nll_loss_nonneg:
  assumes "nll_loss out target red = Inr l" and "\<forall>row\<in>set out. \<forall>x\<in>set row. x \<le> 0"
  shows "0 \<le> l"
proof -
  from assms(1) have inb: "\<not> list_ex (\<lambda>(row, t). length row \<le> t) (zip out target)"
    by (simp add: nll_loss_def split: if_splits)
  have s: "0 \<le> sum_list (map (\<lambda>(row, t). - (row ! t)) (zip out target))"
  proof (rule sum_list_nonneg)
    fix x assume "x \<in> set (map (\<lambda>(row, t). - (row ! t)) (zip out target))"
    then obtain row t where rt: "(row, t) \<in> set (zip out target)" "x = - (row ! t)" by auto
    with inb have "t < length row" by (auto simp: list_ex_iff)
    moreover from rt have "row \<in> set out" by (meson set_zip_leftD)
    ultimately have "row ! t \<le> 0" using assms(2) by simp
    with rt show "0 \<le> x" by simp
  qed
  from assms(1) show ?thesis using s
    by (cases red) (auto simp: nll_loss_def Let_def split: if_splits)
qed

lemma batch_losses_nonneg:
  assumes "\<forall>p b r d. \<forall>row\<in>set (fst (forward lib p b r d)). \<forall>x\<in>set row. x \<le> 0"
  shows "batch_losses lib m bs r = Inr ls \<Longrightarrow> 0 \<le> sum_list ls"
proof (induction bs arbitrary: r ls)
  case Nil
  then show ?case by simp
next
  case (Cons b bs)
  obtain data target where b: "b = (data, target)" by (cases b)
  obtain out r1 where f: "forward lib (params m) (training m) r data = (out, r1)"
    by (cases "forward lib (params m) (training m) r data")
  from Cons.prems b f obtain l ls' where
    l: "nll_loss out target Sum = Inr l" and ls': "batch_losses lib m bs r1 = Inr ls'" and
    eq: "ls = l # ls'"
    by (auto split: sum.splits)
  from assms f have "\<forall>row\<in>set out. \<forall>x\<in>set row. x \<le> 0"
    by (metis fst_conv)
  with l have "0 \<le> l" by (rule nll_loss_nonneg)
  with Cons.IH[OF ls'] eq show ?case by simp
qed

lemma exp_le_sum_list: "x \<in> set row \<Longrightarrow> exp x \<le> (\<Sum>s\<leftarrow>row. exp (s :: real))"
proof (induction row)
  case Nil
  then show ?case by simp
next
  case (Cons y ys)
  have nn: "0 \<le> (\<Sum>s\<leftarrow>ys. exp s)" by (rule sum_list_nonneg) auto
  from Cons show ?case
  proof (cases "x = y")
    case True
    with nn show ?thesis by simp
  next
    case False
    with Cons have le: "exp x \<le> (\<Sum>s\<leftarrow>ys. exp s)" by simp
    have "(\<Sum>s\<leftarrow>y # ys. exp s) = exp y + (\<Sum>s\<leftarrow>ys. exp s)" by simp
    with le exp_ge_zero[of y] show ?thesis by linarith
  qed
qed

lemma log_probabilities_nonpos:
  assumes "log_probabilities row" and "x \<in> set row"
  shows "x \<le> 0"
proof -
  from exp_le_sum_list[OF assms(2)] assms(1) have "exp x \<le> 1"
    by (simp add: log_probabilities_def)
  then show ?thesis by simp
qed

text \<open>
  \<^bold>\<open>Claim C5.\<close> The script evaluates no model but \<^verbatim>\<open>Net\<close>, whose outputs are
  log-probabilities. For every such model, whatever its parameters, and every test
  loader, the average loss \<open>test\<close> returns is non-negative: each sample contributes the
  negated logarithm of a probability.
\<close>

theorem test_loss_nonneg:
  assumes "\<forall>p mode r xs. \<forall>row\<in>set (fst (forward lib p mode r xs)). log_probabilities row"
    and "result_of (test lib m dev test_loader epoch w) = Inr (v, m')"
  shows "0 \<le> v"
proof -
  from assms(1) have np: "\<forall>p b r d. \<forall>row\<in>set (fst (forward lib p b r d)). \<forall>x\<in>set row. x \<le> 0"
    using log_probabilities_nonpos by blast
  from assms(2) obtain ls where
    ls: "batch_losses lib (m\<lparr>training := False\<rparr>)
           (fst (loader_iter lib (loaders w test_loader) (rng w)))
           (snd (loader_iter lib (loaders w test_loader) (rng w))) = Inr ls" and
    v: "v = sum_list ls / real (length (dataset (loaders w test_loader)))"
    by (auto simp: test_result split: sum.splits if_splits)
  from batch_losses_nonneg[OF np ls] v show ?thesis by simp
qed

lemma uniform_test:
  "result_of (test uniform_torch toy_model Cpu 0 3 (toy_world (toy_loader 2 False))) =
   Inr (ln 2, toy_model\<lparr>training := False\<rparr>)"
  by (simp add: uniform_torch_def toy_defs run_defs batched_eval numeral_2_eq_2 numeral_3_eq_3)

theorem test_loss_nonneg_witness:
  "result_of (test uniform_torch toy_model Cpu 0 3 (toy_world (toy_loader 2 False))) =
     Inr (ln 2, toy_model\<lparr>training := False\<rparr>) \<and> (0 :: real) \<le> ln 2"
proof -
  have h: "\<forall>p mode r xs. \<forall>row\<in>set (fst (forward uniform_torch p mode r xs)). log_probabilities row"
    by (auto simp add: uniform_torch_def log_probabilities_def exp_minus)
  from test_loss_nonneg[OF h uniform_test] uniform_test show ?thesis by simp
qed

subsection \<open>One training batch in dry-run mode\<close>








subsection \<open>The objective\<close>

lemma objective_unbound:
  "epochs a \<le> 0 \<Longrightarrow> result_of (objective lib a dev trl tel t w) = Inl UnboundLocalError"
  by (simp add: objective_def range_of_def Let_def split: prod.splits)

text \<open>
  \<^bold>\<open>Claim C10.\<close> With \<open>args.epochs \<le> 0\<close> the loop body never runs, \<^verbatim>\<open>test_loss\<close> is never
  bound and \<open>objective\<close> raises UnboundLocalError; so whenever \<open>objective\<close> returns a
  value, \<open>args.epochs \<ge> 1\<close>.
\<close>

theorem objective_needs_an_epoch:
  "(epochs a \<le> 0 \<longrightarrow> result_of (objective lib a dev trl tel t w) = Inl UnboundLocalError) \<and>
   (returns (objective lib a dev trl tel t w) \<longrightarrow> 1 \<le> epochs a)"
proof -
  have "returns (objective lib a dev trl tel t w) \<Longrightarrow> 1 \<le> epochs a"
  proof (rule ccontr)
    assume r: "returns (objective lib a dev trl tel t w)" and "\<not> 1 \<le> epochs a"
    then have "result_of (objective lib a dev trl tel t w) = Inl UnboundLocalError"
      by (simp add: objective_unbound)
    with r show False by (cases "objective lib a dev trl tel t w") simp_all
  qed
  then show ?thesis by (simp add: objective_unbound)
qed

theorem objective_needs_an_epoch_witness:
  "epochs (toy_args\<lparr>epochs := 0\<rparr>) \<le> 0 \<and>
   result_of (objective (toy_torch (- 1)) (toy_args\<lparr>epochs := 0\<rparr>) Cpu 0 0 toy_trial
     (toy_world (toy_loader 2 False))) = Inl UnboundLocalError \<and>
   returns (objective (toy_torch (- 1)) toy_args Cpu 0 0 toy_trial (toy_world (toy_loader 2 False))) \<and>
   1 \<le> epochs toy_args"
proof -
  have h: "epochs (toy_args\<lparr>epochs := 0\<rparr>) \<le> 0" by simp
  from objective_needs_an_epoch[of "toy_args\<lparr>epochs := 0\<rparr>" "toy_torch (- 1)" Cpu 0 0 toy_trial
         "toy_world (toy_loader 2 False)"]
       objective_needs_an_epoch[of toy_args "toy_torch (- 1)" Cpu 0 0 toy_trial
         "toy_world (toy_loader 2 False)"]
       h toy_objective_returns
  show ?thesis by blast
qed

subsection \<open>The search\<close>

lemma report_lines_printed:
  "printed (foldl (\<lambda>w (key, v). print (ParamLine key v) w) w ps) =
   printed w @ map (\<lambda>(key, v). ParamLine key v) ps"
  by (induction ps arbitrary: w) (simp_all add: print_def split: prod.splits)

lemma report_printed:
  "printed (report t w) =
   printed w @ [ValueLine (ft_value t), ParamsLine] @
   map (\<lambda>(key, v). ParamLine key v) (ft_params t)"
  by (simp add: report_def report_lines_printed Let_def) (simp add: print_def)

lemma in_ranges_iff:
  "in_ranges ps \<longleftrightarrow>
   (\<exists>l g. ps = [(''lr'', l), (''gamma'', g)] \<and>
           1 / 10000 \<le> l \<and> l \<le> 1 / 10 \<and> 1 / 2 \<le> g \<and> g \<le> 9 / 10)"
  by (auto simp: in_ranges_def split: list.splits prod.splits)

lemma objective_trial_params:
  assumes "trial_params t0 = []"
    and c: "\<forall>name low high lg. low \<le> high \<longrightarrow>
              low \<le> sample t0 name low high lg \<and> sample t0 name low high lg \<le> high"
    and r: "objective lib a dev trl tel t0 w = Return (v, t) w1"
  shows "in_ranges (trial_params t) \<and> number t = number t0"
proof -
  let ?l = "sample t0 ''lr'' (1 / 10000) (1 / 10) True"
  let ?g = "sample t0 ''gamma'' (1 / 2) (9 / 10) False"
  let ?t1 = "t0\<lparr>trial_params := [(''lr'', ?l)]\<rparr>"
  let ?t2 = "t0\<lparr>trial_params := [(''lr'', ?l), (''gamma'', ?g)]\<rparr>"
  have s1: "suggest_float t0 ''lr'' (1 / 10000) (1 / 10) True = (?l, ?t1)"
    by (simp add: suggest_float_def assms(1) Let_def)
  have s2: "suggest_float ?t1 ''gamma'' (1 / 2) (9 / 10) False = (?g, ?t2)"
    by (simp add: suggest_float_def Let_def)
  from r have "t = ?t2"
    by (simp add: objective_def s1 s2 Let_def split: prod.splits outcome.splits option.splits)
  moreover have "(1 / 10000 :: real) \<le> 1 / 10" by simp
  with c have "1 / 10000 \<le> ?l \<and> ?l \<le> 1 / 10" by blast
  moreover have "(1 / 2 :: real) \<le> 9 / 10" by simp
  with c have "1 / 2 \<le> ?g \<and> ?g \<le> 9 / 10" by blast
  ultimately show ?thesis by (simp add: in_ranges_iff)
qed

lemma optimize_trials:
  assumes c: "\<forall>hist k name low high lg. low \<le> high \<longrightarrow>
              low \<le> smp hist k name low high lg \<and> smp hist k name low high lg \<le> high"
  shows "\<forall>t\<in>set (trials st). in_ranges (ft_params t) \<Longrightarrow>
         optimize (objective lib a dev trl tel) smp n st w = Return st' w' \<Longrightarrow>
         length (trials st') = length (trials st) + n \<and>
         (\<forall>t\<in>set (trials st'). in_ranges (ft_params t)) \<and>
         study_direction st' = study_direction st"
proof (induction n arbitrary: st w)
  case 0
  then show ?case by simp
next
  case (Suc n)
  from Suc.prems(2) obtain v t w1 where
    o: "objective lib a dev trl tel (ask smp st) w = Return (v, t) w1" and
    rest: "optimize (objective lib a dev trl tel) smp n (tell st t v) w1 = Return st' w'"
    by (auto split: outcome.splits prod.splits)
  have "in_ranges (trial_params t)"
    using objective_trial_params[OF _ _ o] c by (simp add: ask_def)
  with Suc.prems(1) have inv: "\<forall>t\<in>set (trials (tell st t v)). in_ranges (ft_params t)"
    by (simp add: tell_def)
  from Suc.IH[OF inv rest] show ?case by (simp add: tell_def)
qed

lemma foldl_min_best:
  "foldl (\<lambda>b t. if ft_value t < ft_value b then t else b) t0 ts \<in> set (t0 # ts) \<and>
   (\<forall>t\<in>set (t0 # ts). ft_value (foldl (\<lambda>b t. if ft_value t < ft_value b then t else b) t0 ts)
       \<le> ft_value t)"
proof (induction ts arbitrary: t0)
  case Nil
  show ?case by simp
next
  case (Cons x ts)
  let ?b = "if ft_value x < ft_value t0 then x else t0"
  from Cons.IH[of ?b] show ?case by (auto split: if_splits)
qed

lemma best_trial_minimal:
  assumes "study_direction st = Minimize" and "trials st \<noteq> []"
  shows "\<exists>t. best_trial st = Inr t \<and> t \<in> set (trials st) \<and>
             (\<forall>t'\<in>set (trials st). ft_value t \<le> ft_value t')"
proof -
  from assms(2) obtain t0 ts where ts: "trials st = t0 # ts" by (cases "trials st") auto
  with assms(1) have "best_trial st =
      Inr (foldl (\<lambda>b t. if ft_value t < ft_value b then t else b) t0 ts)"
    by (simp add: best_trial_def better_def)
  with foldl_min_best[of t0 ts] ts show ?thesis by simp
qed

subsection \<open>Flags the script does not use\<close>

lemma train_loop_args:
  assumes "log_interval a' = log_interval a" and "dry_run a' = dry_run a"
  shows "train_loop lib a' dev trl epoch i bs st w = train_loop lib a dev trl epoch i bs st w"
proof (induction bs arbitrary: i st w)
  case Nil
  show ?case by (cases st) simp
next
  case (Cons b bs)
  obtain data target where b: "b = (data, target)" by (cases b)
  obtain m opt where st: "st = (m, opt)" by (cases st)
  show ?case
    by (simp add: b st assms Cons.IH Let_def split: prod.splits sum.splits)
qed

lemma train_args:
  assumes "log_interval a' = log_interval a" and "dry_run a' = dry_run a"
  shows "train lib a' m dev trl opt epoch w = train lib a m dev trl opt epoch w"
  by (simp add: train_def train_loop_args[OF assms])

lemma epoch_loop_args:
  assumes "log_interval a' = log_interval a" and "dry_run a' = dry_run a"
  shows "epoch_loop lib a' dev trl tel es st w = epoch_loop lib a dev trl tel es st w"
proof (induction es arbitrary: st w)
  case Nil
  show ?case by simp
next
  case (Cons e es)
  obtain m opt sch prev where st: "st = (m, opt, sch, prev)" by (cases st)
  show ?case
    by (simp add: st train_args[OF assms] Cons.IH Let_def split: outcome.splits prod.splits)
qed

lemma objective_args:
  assumes "log_interval a' = log_interval a" and "dry_run a' = dry_run a"
    and "epochs a' = epochs a"
  shows "objective lib a' dev trl tel = objective lib a dev trl tel"
  by (intro ext) (simp add: objective_def epoch_loop_args[OF assms(1,2)] assms(3))

lemma set_config_simps [simp]:
  "rng (set_config c w) = rng w"
  "loaders (set_config c w) = loaders w"
  "next_loader (set_config c w) = next_loader w"
  "(set_config c w)\<lparr>rng := r\<rparr> = set_config c (w\<lparr>rng := r\<rparr>)"
  "print l (set_config c w) = set_config c (print l w)"
  "wandb_log x (set_config c w) = set_config c (wandb_log x w)"
  by (simp_all add: set_config_def print_def wandb_log_def)

lemma test_loop_config:
  "test_loop lib m dev bs acc (set_config c w) = map_world (set_config c) (test_loop lib m dev bs acc w)"
proof (induction bs arbitrary: acc w)
  case Nil
  show ?case by simp
next
  case (Cons b bs)
  obtain data target where b: "b = (data, target)" by (cases b)
  obtain l0 c0 where acc: "acc = (l0, c0)" by (cases acc)
  show ?case
    by (simp add: b acc Cons.IH Let_def split: prod.splits sum.splits)
qed

lemma test_config:
  "test lib m dev tel epoch (set_config c w) = map_world (set_config c) (test lib m dev tel epoch w)"
proof -
  obtain batches r where it: "loader_iter lib (loaders w tel) (rng w) = (batches, r)"
    by (cases "loader_iter lib (loaders w tel) (rng w)")
  have fr: "\<And>w1. frame_of w1 = frame_of (w\<lparr>rng := r\<rparr>) \<Longrightarrow> loaders w1 = loaders w"
    by (simp add: frame_of_def)
  show ?thesis
  proof (cases "test_loop lib (m\<lparr>training := False\<rparr>) dev batches (0, 0) (w\<lparr>rng := r\<rparr>)")
    case (Raise e w1)
    then show ?thesis by (simp add: test_def it test_loop_config)
  next
    case (Return acc w1)
    obtain total c0 where acc: "acc = (total, c0)" by (cases acc)
    from Return show ?thesis
      by (simp add: test_def it test_loop_config acc Let_def)
  qed
qed

lemma train_loop_config:
  "train_loop lib a dev trl epoch i bs st (set_config c w) =
   map_world (set_config c) (train_loop lib a dev trl epoch i bs st w)"
proof (induction bs arbitrary: i st w)
  case Nil
  show ?case by (cases st) simp
next
  case (Cons b bs)
  obtain data target where b: "b = (data, target)" by (cases b)
  obtain m opt where st: "st = (m, opt)" by (cases st)
  show ?case
    by (simp add: b st Cons.IH Let_def split: prod.splits sum.splits)
qed

lemma train_config:
  "train lib a m dev trl opt epoch (set_config c w) =
   map_world (set_config c) (train lib a m dev trl opt epoch w)"
  by (simp add: train_def train_loop_config Let_def split: prod.splits)

lemma epoch_loop_config:
  "epoch_loop lib a dev trl tel es st (set_config c w) =
   map_world (set_config c) (epoch_loop lib a dev trl tel es st w)"
proof (induction es arbitrary: st w)
  case Nil
  show ?case by simp
next
  case (Cons e es)
  obtain m opt sch prev where st: "st = (m, opt, sch, prev)" by (cases st)
  show ?case
  proof (cases "train lib a m dev trl opt e w")
    case (Raise x w1)
    then show ?thesis by (simp add: st train_config)
  next
    case (Return mo w1)
    obtain m1 opt1 where mo: "mo = (m1, opt1)" by (cases mo)
    show ?thesis
    proof (cases "test lib m1 dev tel e w1")
      case (Raise x w2)
      with Return mo show ?thesis by (simp add: st train_config test_config)
    next
      case R2: (Return vm w2)
      obtain v m2 where vm: "vm = (v, m2)" by (cases vm)
      from Return mo R2 vm show ?thesis
        by (simp add: st train_config test_config Cons.IH Let_def split: prod.splits)
    qed
  qed
qed

lemma Net_config:
  "Net lib dev (set_config c w) = (fst (Net lib dev w), set_config c (snd (Net lib dev w)))"
  by (simp add: Net_def Let_def split: prod.splits)

lemma objective_config:
  "objective lib a dev trl tel t (set_config c w) =
   map_world (set_config c) (objective lib a dev trl tel t w)"
proof -
  obtain l t1 where s1: "suggest_float t ''lr'' (1 / 10000) (1 / 10) True = (l, t1)"
    by (cases "suggest_float t ''lr'' (1 / 10000) (1 / 10) True")
  obtain g t2 where s2: "suggest_float t1 ''gamma'' (1 / 2) (9 / 10) False = (g, t2)"
    by (cases "suggest_float t1 ''gamma'' (1 / 2) (9 / 10) False")
  obtain m w1 where n: "Net lib dev w = (m, w1)" by (cases "Net lib dev w")
  then have n': "Net lib dev (set_config c w) = (m, set_config c w1)" by (simp add: Net_config)
  let ?run = "epoch_loop lib a dev trl tel (range_of (epochs a)) (m, Adam lib m l, StepLR (Adam lib m l) 1 g, None) w1"
  show ?thesis
    by (cases ?run)
       (simp_all add: objective_def s1 s2 n n' epoch_loop_config Let_def
                 split: prod.splits option.splits)
qed

lemma optimize_config:
  assumes "\<And>t w. obj t (set_config c w) = map_world (set_config c) (obj t w)"
  shows "optimize obj smp k st (set_config c w) = map_world (set_config c) (optimize obj smp k st w)"
proof (induction k arbitrary: st w)
  case 0
  show ?case by simp
next
  case (Suc k)
  show ?case
  proof (cases "obj (ask smp st) w")
    case (Raise e w1)
    then show ?thesis by (simp add: assms)
  next
    case (Return vt w1)
    obtain v t where vt: "vt = (v, t)" by (cases vt)
    from Return vt show ?thesis by (simp add: assms Suc.IH)
  qed
qed

lemma DataLoader_config:
  "DataLoader ds k (set_config c w) = map_world (set_config c) (DataLoader ds k w)"
  by (simp add: DataLoader_def set_config_def)

lemma report_lines_config:
  "foldl (\<lambda>w (key, v). print (ParamLine key v) w) (set_config c w) ps =
   set_config c (foldl (\<lambda>w (key, v). print (ParamLine key v) w) w ps)"
  by (induction ps arbitrary: w) (simp_all split: prod.splits)

lemma report_config: "report t (set_config c w) = set_config c (report t w)"
  by (simp add: report_def report_lines_config Let_def)

lemma case_map_world:
  "(case map_world f x of Raise e w \<Rightarrow> R e w | Return b w \<Rightarrow> S b w) =
   (case x of Raise e w \<Rightarrow> R e (f w) | Return b w \<Rightarrow> S b (f w))"
  by (cases x) simp_all

lemma torch_manual_seed_config:
  "torch_manual_seed lib s (set_config c w) = map_world (set_config c) (torch_manual_seed lib s w)"
  by (simp add: torch_manual_seed_def)

lemma main_loaders_config:
  "main_loaders lib env a (set_config c w) = map_world (set_config c) (main_loaders lib env a w)"
  unfolding main_loaders_def
  by (simp add: torch_manual_seed_config DataLoader_config case_map_world split: outcome.splits)

lemma main_start_args: "main_start env a' w = set_config (Some a') (main_start env a w)"
  by (simp add: main_start_def set_config_def makedirs_def Let_def)

lemma main_loaders_args:
  assumes "seed a' = seed a" and "no_cuda a' = no_cuda a"
    and "batch_size a' = batch_size a" and "test_batch_size a' = test_batch_size a"
  shows "main_loaders lib env a' w = main_loaders lib env a w"
  unfolding main_loaders_def loader_kwargs_def uses_cuda_def assms
  by (rule refl)

lemma main_search_args:
  assumes "log_interval a' = log_interval a" and "dry_run a' = dry_run a"
    and "epochs a' = epochs a" and "no_cuda a' = no_cuda a"
  shows "main_search lib env a' trl tel w = main_search lib env a trl tel w"
  by (simp add: main_search_def device_of_def uses_cuda_def objective_args[OF assms(1,2,3)] assms(4))

lemma main_report_config:
  "main_report st (set_config c w) = map_world (set_config c) (main_report st w)"
proof -
  have fin: "\<And>t w. (report t (set_config c w))\<lparr>wandb_finished := True\<rparr> =
                   set_config c ((report t w)\<lparr>wandb_finished := True\<rparr>)"
    by (simp add: report_config) (simp add: set_config_def)
  show ?thesis
    by (cases "best_trial st") (simp_all add: main_report_def Let_def fin)
qed

lemma main_search_config:
  "main_search lib env a trl tel (set_config c w) =
   map_world (set_config c) (main_search lib env a trl tel w)"
proof -
  have opt: "\<And>st w. optimize (objective lib a (device_of env a) trl tel) (optuna_sampler env) 5 st (set_config c w) =
      map_world (set_config c) (optimize (objective lib a (device_of env a) trl tel) (optuna_sampler env) 5 st w)"
    by (rule optimize_config) (rule objective_config)
  show ?thesis
    unfolding main_search_def
    by (simp add: opt case_map_world main_report_config split: outcome.splits)
qed

lemma main_unfold:
  "main lib env a w =
     (case main_setup lib env a w of
        Raise e w1 \<Rightarrow> Raise e w1
      | Return ls w1 \<Rightarrow> main_search lib env a (fst ls) (snd ls) w1)"
  unfolding main_def main_setup_def main_start_def main_loaders_def main_search_def main_report_def
    loader_kwargs_def device_of_def uses_cuda_def Let_def
  by (simp split: outcome.splits)

lemma report_saved: "saved_models (report t w) = saved_models w"
  using report_frame[of t w] by (simp add: frame_of_def)

lemma main_report_saved: "saved_models (world_of (main_report st w)) = saved_models w"
  by (cases "best_trial st") (simp_all add: main_report_def Let_def report_saved print_def)

lemma main_search_saved:
  "saved_models (world_of (main_search lib env a trl tel w)) = saved_models w"
proof -
  let ?o = "optimize (objective lib a (device_of env a) trl tel) (optuna_sampler env) 5
              (create_study Minimize) w"
  have f: "frame_of (world_of ?o) = frame_of w" by (rule search_frame)
  show ?thesis
  proof (cases ?o)
    case (Raise e w3)
    with f have "saved_models w3 = saved_models w" by (simp add: frame_of_def)
    with Raise show ?thesis by (simp add: main_search_def)
  next
    case (Return st w3)
    with f have "saved_models w3 = saved_models w" by (simp add: frame_of_def)
    with Return show ?thesis by (simp add: main_search_def main_report_saved)
  qed
qed

lemma main_setup_saved: "saved_models (world_of (main_setup lib env a w)) = saved_models w"
  by (simp add: main_setup_def main_loaders_def main_start_def torch_manual_seed_def
        DataLoader_def makedirs_def Let_def split: outcome.splits)

lemma main_saved: "saved_models (world_of (main lib env a w)) = saved_models w"
proof (cases "main_setup lib env a w")
  case (Raise e w1)
  with main_setup_saved[of lib env a w] show ?thesis by (simp add: main_unfold)
next
  case (Return ls w1)
  with main_setup_saved[of lib env a w] show ?thesis
    by (simp add: main_unfold main_search_saved)
qed

lemma map_world_config:
  "wandb_config (world_of (map_world (set_config c) x)) = c"
  by (cases x) (simp_all add: set_config_def)

lemma main_other_args:
  assumes "seed a' = seed a" and "log_interval a' = log_interval a" and "dry_run a' = dry_run a"
    and "epochs a' = epochs a" and "no_cuda a' = no_cuda a"
    and "batch_size a' = batch_size a" and "test_batch_size a' = test_batch_size a"
  shows "main lib env a' w = map_world (set_config (Some a')) (main lib env a w)"
proof -
  have "main_setup lib env a' w =
        main_loaders lib env a (set_config (Some a') (main_start env a w))"
    unfolding main_setup_def main_loaders_args[OF assms(1,5,6,7)]
    by (subst main_start_args[where a = a]) (rule refl)
  then have s: "main_setup lib env a' w =
        map_world (set_config (Some a')) (main_setup lib env a w)"
    by (simp add: main_loaders_config main_setup_def)
  show ?thesis
  proof (cases "main_setup lib env a w")
    case (Raise e w1)
    with s show ?thesis by (simp add: main_unfold)
  next
    case (Return ls w1)
    with s show ?thesis
      by (simp add: main_unfold main_search_args[OF assms(2,3,4,5)] main_search_config)
  qed
qed

lemma main_records_config: "wandb_config (world_of (main lib env a w)) = Some a"
proof -
  have "main lib env a w = map_world (set_config (Some a)) (main lib env a w)"
    by (rule main_other_args) simp_all
  then have "wandb_config (world_of (main lib env a w)) =
             wandb_config (world_of (map_world (set_config (Some a)) (main lib env a w)))"
    by (rule arg_cong)
  then show ?thesis by (simp only: map_world_config)
qed

lemma set_config_eq: "set_config c = (\<lambda>w. w\<lparr>wandb_config := c\<rparr>)"
  by (rule ext) (simp add: set_config_def)

text \<open>
  \<^bold>\<open>Claim C8\<close>, as stated, fails: \<^verbatim>\<open>wandb.init(config=args)\<close> reads every flag, so two
  runs that differ only in \<^verbatim>\<open>--gamma\<close> record different configurations.
\<close>

theorem gamma_flag_counterexample:
  "wandb_config (world_of (main (toy_torch (- 1)) toy_env (toy_args\<lparr>gamma := 8 / 10\<rparr>)
       (toy_world (toy_loader 2 False)))) = Some (toy_args\<lparr>gamma := 8 / 10\<rparr>) \<and>
   wandb_config (world_of (main (toy_torch (- 1)) toy_env toy_args
       (toy_world (toy_loader 2 False)))) = Some toy_args \<and>
   toy_args\<lparr>gamma := 8 / 10\<rparr> \<noteq> toy_args"
  by (simp add: main_records_config toy_args_def default_args_def)

text \<open>
  \<^bold>\<open>Claim C8, amended.\<close> Two runs that differ only in \<^verbatim>\<open>--gamma\<close> have the same outcome
  and leave the same world (the same models trained, losses printed and logged, best
  trial reported) except for the configuration recorded by \<^verbatim>\<open>wandb.init\<close>, which holds
  the flag's value.
\<close>

theorem gamma_flag_only_recorded:
  "main lib env (a\<lparr>gamma := g\<rparr>) w =
   map_world (\<lambda>w'. w'\<lparr>wandb_config := Some (a\<lparr>gamma := g\<rparr>)\<rparr>) (main lib env a w)"
  using main_other_args[of "a\<lparr>gamma := g\<rparr>" a lib env w] by (simp add: set_config_eq)

text \<open>
  \<^bold>\<open>Claim C9\<close>, as stated, fails in the same way: the flag \<^verbatim>\<open>--save-model\<close> is read by
  \<^verbatim>\<open>wandb.init(config=args)\<close> and shows in the recorded configuration.
\<close>

theorem save_model_flag_counterexample:
  "wandb_config (world_of (main (toy_torch (- 1)) toy_env (toy_args\<lparr>save_model := True\<rparr>)
       (toy_world (toy_loader 2 False)))) = Some (toy_args\<lparr>save_model := True\<rparr>) \<and>
   wandb_config (world_of (main (toy_torch (- 1)) toy_env toy_args
       (toy_world (toy_loader 2 False)))) = Some toy_args \<and>
   toy_args\<lparr>save_model := True\<rparr> \<noteq> toy_args"
  by (simp add: main_records_config toy_args_def default_args_def)

text \<open>
  \<^bold>\<open>Claim C9, amended.\<close> No run of \<open>main\<close> saves a model, whether it returns or raises
  and whatever the flag; and two runs that differ only in \<^verbatim>\<open>--save-model\<close> have the
  same outcome and leave the same world except for the configuration recorded by
  \<^verbatim>\<open>wandb.init\<close>.
\<close>

theorem save_model_flag_only_recorded:
  "saved_models (world_of (main lib env a w)) = saved_models w \<and>
   main lib env (a\<lparr>save_model := b\<rparr>) w =
   map_world (\<lambda>w'. w'\<lparr>wandb_config := Some (a\<lparr>save_model := b\<rparr>)\<rparr>) (main lib env a w)"
proof
  show "saved_models (world_of (main lib env a w)) = saved_models w"
    by (rule main_saved)
  show "main lib env (a\<lparr>save_model := b\<rparr>) w =
        map_world (\<lambda>w'. w'\<lparr>wandb_config := Some (a\<lparr>save_model := b\<rparr>)\<rparr>) (main lib env a w)"
    using main_other_args[of "a\<lparr>save_model := b\<rparr>" a lib env w] by (simp add: set_config_eq)
qed

end
